theory Spec2Isabelle
  imports Main "HOL-Library.AList" "HOL-Library.Sublist"
begin

section \<open>JavaScript values\<close>

text \<open>
  The module \<^verbatim>\<open>source-nodes.ts\<close> handles untyped host data: S3 object descriptors,
  file nodes returned by \<^verbatim>\<open>createRemoteFileNode\<close>, whatever the host's \<^verbatim>\<open>createNode\<close>
  returns, and promises. They are modelled by one type of values. An object is the
  list of its own properties in insertion order. A promise is modelled by its settled
  state: fulfilled with a value, or rejected with a reason. Thrown values and rejection
  reasons are kept as their string coercion, which is how the module itself reads them
  (\<^verbatim>\<open>`... ${err}`\<close>).
\<close>

datatype jsval =
    JUndefined
  | JNull
  | JBool bool
  | JNum int
  | JStr string
  | JObj "(string \<times> jsval) list"
  | JResolved jsval
  | JRejected string

type_synonym jsobj = "(string \<times> jsval) list"

text \<open>Truthiness, as tested by \<^verbatim>\<open>!x\<close> and by lodash's \<^verbatim>\<open>_.compact\<close>.\<close>

fun truthy :: "jsval \<Rightarrow> bool" where
  "truthy JUndefined = False"
| "truthy JNull = False"
| "truthy (JBool b) = b"
| "truthy (JNum n) = (n \<noteq> 0)"
| "truthy (JStr s) = (s \<noteq> [])"
| "truthy (JObj ps) = True"
| "truthy (JResolved v) = True"
| "truthy (JRejected r) = True"

text \<open>Property read \<^verbatim>\<open>o.k\<close> on an object: \<^verbatim>\<open>undefined\<close> when the property is absent.\<close>

definition getProp :: "jsobj \<Rightarrow> string \<Rightarrow> jsval" where
  "getProp ps k = (case map_of ps k of Some v \<Rightarrow> v | None \<Rightarrow> JUndefined)"

text \<open>\<^verbatim>\<open>_.get(x, k)\<close> with a single-segment path: \<^verbatim>\<open>undefined\<close> on anything but an object.\<close>

fun lodash_get :: "jsval \<Rightarrow> string \<Rightarrow> jsval" where
  "lodash_get (JObj ps) k = getProp ps k"
| "lodash_get v k = JUndefined"

text \<open>\<^verbatim>\<open>_.compact(xs)\<close>: the truthy elements, in order.\<close>

definition compact :: "jsval list \<Rightarrow> jsval list" where
  "compact xs = filter truthy xs"

text \<open>
  \<^verbatim>\<open>await v\<close>: the value of a fulfilled promise, a throw of the reason of a rejected
  one, and \<open>v\<close> itself when it is not a promise.
\<close>

fun await :: "jsval \<Rightarrow> string + jsval" where
  "await (JResolved v) = Inr v"
| "await (JRejected r) = Inl r"
| "await v = Inr v"

text \<open>
  \<^verbatim>\<open>Promise.all(xs)\<close>: the values of all elements, or a rejection if one of them is
  rejected (the first in list order stands for the first to settle).
\<close>

fun promise_all :: "jsval list \<Rightarrow> string + jsval list" where
  "promise_all [] = Inr []"
| "promise_all (x # xs) =
     (case await x of
        Inl r \<Rightarrow> Inl r
      | Inr v \<Rightarrow> (case promise_all xs of Inl r \<Rightarrow> Inl r | Inr vs \<Rightarrow> Inr (v # vs)))"

text \<open>
  \<^verbatim>\<open>s.replace(/c/g, rep)\<close> for a pattern that is one literal character: every
  occurrence of \<open>c\<close> is replaced, scanning left to right.
\<close>

fun replace_global :: "char \<Rightarrow> string \<Rightarrow> string \<Rightarrow> string" where
  "replace_global c rep [] = []"
| "replace_global c rep (x # xs) =
     (if x = c then rep @ replace_global c rep xs else x # replace_global c rep xs)"

definition dquote :: char where
  "dquote = CHR 0x22"

definition TypeError :: string where
  "TypeError = ''TypeError''"

section \<open>Plugin-specific constants and types\<close>

definition S3SourceGatsbyNodeType :: string where
  "S3SourceGatsbyNodeType = ''S3ImageAsset''"

record SourceS3Options =
  accessKeyId :: string
  secretAccessKey :: string
  bucketName :: string
  domain :: "string option"
  protocol :: "string option"

text \<open>The parameters the module passes to the S3 client's constructor.\<close>

record S3Params =
  s3_accessKeyId :: string
  s3_secretAccessKey :: string
  apiVersion :: string
  endpoint :: string
  s3ForcePathStyle :: bool
  signatureVersion :: string

text \<open>\<^verbatim>\<open>S3.ListObjectsV2Output\<close>, of which the module reads \<^verbatim>\<open>Contents\<close> only.\<close>

record ListObjectsV2Output =
  Contents :: "jsobj list option"

record UrlArgs =
  url_bucketName :: string
  url_domain :: string
  url_key :: jsval
  url_protocol :: string

text \<open>
  Everything the module calls and does not define: the helpers imported from
  \<^verbatim>\<open>./utils\<close> (\<open>isImage\<close>, \<open>constructS3UrlForAsset\<close>), the libraries
  (\<^verbatim>\<open>mime.lookup\<close> on a non-empty string, the S3 client's \<^verbatim>\<open>listObjectsV2\<close>,
  \<^verbatim>\<open>createRemoteFileNode\<close>) and the host's functions (\<open>createNode\<close>, \<open>createNodeId\<close>).
  A call that can throw or reject returns a sum, \<open>Inl\<close> the reason; the two helpers
  of \<^verbatim>\<open>./utils\<close>, which run outside the \<^verbatim>\<open>try\<close> block, are taken to return. The handles
  \<^verbatim>\<open>cache\<close>, \<^verbatim>\<open>reporter\<close> and \<^verbatim>\<open>store\<close> are only forwarded to
  \<open>createRemoteFileNode\<close>, which is therefore a function of the URL.
\<close>

record Env =
  isImage :: "jsobj \<Rightarrow> bool"
  constructS3UrlForAsset :: "UrlArgs \<Rightarrow> string option"
  mime_types :: "string \<Rightarrow> string option"
  listObjectsV2 :: "S3Params \<Rightarrow> string \<Rightarrow> string + ListObjectsV2Output"
  createRemoteFileNode :: "string \<Rightarrow> string + jsval"
  createNode :: "jsobj \<Rightarrow> string + jsval"
  createNodeId :: "string \<Rightarrow> string"

text \<open>The calls the module makes, and the rejected promise it leaves behind in a catch.\<close>

datatype event =
    Fetch string
  | CreateNode jsobj
  | DanglingRejection string

section \<open>getEntityNodeFields\<close>

text \<open>\<^verbatim>\<open>mime.lookup(path)\<close>: \<^verbatim>\<open>false\<close> unless the path is a non-empty string with a known type.\<close>

fun mime_lookup :: "(string \<Rightarrow> string option) \<Rightarrow> jsval \<Rightarrow> jsval" where
  "mime_lookup types (JStr s) =
     (if s = [] then JBool False
      else case types s of None \<Rightarrow> JBool False | Some t \<Rightarrow> JStr t)"
| "mime_lookup types v = JBool False"

record EntityNodeFields =
  absolutePath :: jsval
  fileNodeId :: jsval
  Key :: jsval
  mediaType :: jsval
  objectHash :: string

text \<open>
  \<^verbatim>\<open>ETag!.replace(/"/g, '')\<close>: the non-null assertion is erased at run time, so the
  call throws a TypeError unless \<open>ETag\<close> is a string.
\<close>

fun etag_replace :: "jsval \<Rightarrow> string + string" where
  "etag_replace (JStr s) = Inr (replace_global dquote [] s)"
| "etag_replace v = Inl TypeError"

definition getEntityNodeFields ::
  "(string \<Rightarrow> string option) \<Rightarrow> jsobj \<Rightarrow> jsval \<Rightarrow> string + EntityNodeFields" where
  "getEntityNodeFields types entity fileNode =
     (let etag = getProp entity ''ETag'';
          key = (if getProp entity ''Key'' = JUndefined then JStr [] else getProp entity ''Key'');
          mtype = mime_lookup types key
      in case etag_replace etag of
           Inl err \<Rightarrow> Inl err
         | Inr hash \<Rightarrow>
             Inr \<lparr> absolutePath = lodash_get fileNode ''absolutePath'',
                   fileNodeId = lodash_get fileNode ''id'',
                   Key = key,
                   mediaType = mtype,
                   objectHash = hash \<rparr>)"

section \<open>createS3ImageAssetNode\<close>

text \<open>
  The object literal passed to \<open>createNode\<close>: the entity's properties spread first, then
  the listed properties, each replacing a property of the same name in place.
\<close>

definition assetNode :: "(string \<Rightarrow> string) \<Rightarrow> jsobj \<Rightarrow> EntityNodeFields \<Rightarrow> string \<Rightarrow> jsobj" where
  "assetNode mkId entity f url =
     AList.update ''internal''
       (JObj [(''content'', JStr url),
              (''contentDigest'', JStr (objectHash f)),
              (''mediaType'', mediaType f),
              (''type'', JStr S3SourceGatsbyNodeType)])
     (AList.update ''parent'' (fileNodeId f)
     (AList.update ''Key'' (Key f)
     (AList.update ''id'' (JStr (mkId (objectHash f)))
     (AList.update ''ETag'' (JStr (objectHash f))
     (AList.update ''absolutePath'' (absolutePath f) entity)))))"

definition fileNodeMissing :: string where
  "fileNodeMissing = ''File node must be defined when invoking `createS3ImageAssetNode`.''"

text \<open>
  The result is what the function returns (\<open>Inr\<close>, possibly a rejected promise) or throws
  synchronously (\<open>Inl\<close>), with the calls it made.
\<close>

definition createS3ImageAssetNode ::
  "Env \<Rightarrow> jsobj \<Rightarrow> jsval \<Rightarrow> string \<Rightarrow> (string + jsval) \<times> event list" where
  "createS3ImageAssetNode env entity fileNode url =
     (if \<not> truthy fileNode then (Inr (JRejected fileNodeMissing), [])
      else case getEntityNodeFields (mime_types env) entity fileNode of
             Inl err \<Rightarrow> (Inl err, [])
           | Inr f \<Rightarrow>
               (let node = assetNode (createNodeId env) entity f url
                in (createNode env node, [CreateNode node])))"

section \<open>sourceNodes\<close>

text \<open>
  The body of the \<^verbatim>\<open>try\<close> block: fetch the remote file, skip on a falsy file node,
  otherwise build and create the node and await the result.
\<close>

definition fetchAndBuild :: "Env \<Rightarrow> jsobj \<Rightarrow> string \<Rightarrow> (string + jsval) \<times> event list" where
  "fetchAndBuild env entity url =
     (case createRemoteFileNode env url of
        Inl err \<Rightarrow> (Inl err, [Fetch url])
      | Inr fileNode \<Rightarrow>
          if \<not> truthy fileNode then (Inr JUndefined, [Fetch url])
          else (case createS3ImageAssetNode env entity fileNode url of
                  (Inl err, evs) \<Rightarrow> (Inl err, Fetch url # evs)
                | (Inr p, evs) \<Rightarrow> (await p, Fetch url # evs)))"

definition errorCreating :: "string \<Rightarrow> string" where
  "errorCreating err = ''Error creating S3ImageAsset node: '' @ err"

definition optDomain :: "SourceS3Options \<Rightarrow> string" where
  "optDomain opts = (case domain opts of None \<Rightarrow> ''s3.amazonaws.com'' | Some d \<Rightarrow> d)"

definition optProtocol :: "SourceS3Options \<Rightarrow> string" where
  "optProtocol opts = (case protocol opts of None \<Rightarrow> ''http'' | Some p \<Rightarrow> p)"

text \<open>The argument of \<open>constructS3UrlForAsset\<close> for one listed object.\<close>

definition urlArgs :: "SourceS3Options \<Rightarrow> jsobj \<Rightarrow> UrlArgs" where
  "urlArgs opts entity =
     \<lparr> url_bucketName = bucketName opts, url_domain = optDomain opts,
       url_key = getProp entity ''Key'', url_protocol = optProtocol opts \<rparr>"

text \<open>
  The async arrow function mapped over the listing. It returns the promise it produces
  and the calls it made. The catch block creates a rejected promise and drops it, so the
  function then falls through and resolves to \<^verbatim>\<open>undefined\<close>.
\<close>

definition processEntity :: "Env \<Rightarrow> SourceS3Options \<Rightarrow> jsobj \<Rightarrow> jsval \<times> event list" where
  "processEntity env opts entity =
     (if \<not> isImage env entity then (JResolved JUndefined, [])
      else case constructS3UrlForAsset env (urlArgs opts entity) of
             None \<Rightarrow> (JResolved JUndefined, [])
           | Some url \<Rightarrow>
               if url = [] then (JResolved JUndefined, [])
               else (case fetchAndBuild env entity url of
                       (Inl err, evs) \<Rightarrow>
                         (JResolved JUndefined, evs @ [DanglingRejection (errorCreating err)])
                     | (Inr v, evs) \<Rightarrow> (JResolved v, evs)))"

definition s3Params :: "SourceS3Options \<Rightarrow> S3Params" where
  "s3Params opts =
     \<lparr> s3_accessKeyId = accessKeyId opts,
       s3_secretAccessKey = secretAccessKey opts,
       apiVersion = ''2006-03-01'',
       endpoint = optProtocol opts @ ''://'' @ optDomain opts,
       s3ForcePathStyle = True,
       signatureVersion = ''v4'' \<rparr>"

text \<open>
  The promise \<open>sourceNodes\<close> returns, as \<open>Inl\<close> a rejection or \<open>Inr\<close> the sequence it
  resolves to, with the calls of the run. The calls of different objects interleave at
  run time; the list keeps them grouped by object, in listing order.
\<close>

definition sourceNodes :: "Env \<Rightarrow> SourceS3Options \<Rightarrow> (string + jsval list) \<times> event list" where
  "sourceNodes env opts =
     (case listObjectsV2 env (s3Params opts) (bucketName opts) of
        Inl err \<Rightarrow> (Inl err, [])
      | Inr listObjectsResponse \<Rightarrow>
          (case Contents listObjectsResponse of
             None \<Rightarrow> (Inr [], [])
           | Some s3Entities \<Rightarrow>
               if s3Entities = [] then (Inr [], [])
               else (let rs = map (processEntity env opts) s3Entities
                     in (promise_all (compact (map fst rs)), concat (map snd rs)))))"

section \<open>A sample bucket\<close>

text \<open>
  A concrete environment on which the definitions are evaluated: a three-entry type
  table, a classifier and a URL builder as the plugin's documentation describes them, a
  fetch helper that fails for \<^verbatim>\<open>broken.png\<close> and returns nothing for
  \<^verbatim>\<open>empty.png\<close>, and a host whose \<open>createNode\<close> throws for \<^verbatim>\<open>refused.jpg\<close> and
  otherwise returns the node it was given.
\<close>

definition extension :: "string \<Rightarrow> string" where
  "extension s = rev (takeWhile (\<lambda>c. c \<noteq> CHR ''.'') (rev s))"

definition sampleTypes :: "string \<Rightarrow> string option" where
  "sampleTypes s =
     (if extension s = ''jpg'' then Some ''image/jpeg''
      else if extension s = ''png'' then Some ''image/png''
      else if extension s = ''txt'' then Some ''text/plain''
      else None)"

definition sampleIsImage :: "jsobj \<Rightarrow> bool" where
  "sampleIsImage entity =
     (case mime_lookup sampleTypes (getProp entity ''Key'') of
        JStr t \<Rightarrow> takeWhile (\<lambda>c. c \<noteq> CHR ''/'') t = ''image''
      | _ \<Rightarrow> False)"

definition sampleUrl :: "UrlArgs \<Rightarrow> string option" where
  "sampleUrl a =
     (case url_key a of
        JStr k \<Rightarrow>
          if k = [] then None
          else Some (url_protocol a @ ''://'' @ url_domain a @ ''/'' @ url_bucketName a @ ''/'' @ k)
      | _ \<Rightarrow> None)"

definition sampleFileNode :: jsval where
  "sampleFileNode = JObj [(''id'', JStr ''file-1''), (''absolutePath'', JStr ''/cache/cat.jpg'')]"

definition sampleFetch :: "string \<Rightarrow> string + jsval" where
  "sampleFetch url =
     (if url = ''http://s3.amazonaws.com/my-bucket/broken.png'' then Inl ''ECONNRESET''
      else if url = ''http://s3.amazonaws.com/my-bucket/empty.png'' then Inr JNull
      else Inr sampleFileNode)"

definition sampleCreateNode :: "jsobj \<Rightarrow> string + jsval" where
  "sampleCreateNode node =
     (if getProp node ''Key'' = JStr ''refused.jpg'' then Inl ''refused by host''
      else Inr (JObj node))"

definition sampleEnv :: "jsobj list option \<Rightarrow> Env" where
  "sampleEnv listing =
     \<lparr> isImage = sampleIsImage,
       constructS3UrlForAsset = sampleUrl,
       mime_types = sampleTypes,
       listObjectsV2 = (\<lambda>params bucket. Inr \<lparr> Contents = listing \<rparr>),
       createRemoteFileNode = sampleFetch,
       createNode = sampleCreateNode,
       createNodeId = (\<lambda>seed. ''id-'' @ seed) \<rparr>"

definition sampleOpts :: SourceS3Options where
  "sampleOpts =
     \<lparr> accessKeyId = ''AKIA'', secretAccessKey = ''secret'', bucketName = ''my-bucket'',
       domain = None, protocol = None \<rparr>"

definition quoted :: "string \<Rightarrow> string" where
  "quoted s = dquote # s @ [dquote]"

definition readme :: jsobj where
  "readme = [(''Key'', JStr ''readme.txt''), (''ETag'', JStr (quoted ''r1'')), (''Size'', JNum 12)]"

definition cat :: jsobj where
  "cat = [(''Key'', JStr ''cat.jpg''), (''ETag'', JStr (quoted ''abc123'')), (''Size'', JNum 2048)]"

definition broken :: jsobj where
  "broken = [(''Key'', JStr ''broken.png''), (''ETag'', JStr (quoted ''b1''))]"

definition empty_png :: jsobj where
  "empty_png = [(''Key'', JStr ''empty.png''), (''ETag'', JStr (quoted ''e1''))]"

definition untagged :: jsobj where
  "untagged = [(''Key'', JStr ''untagged.jpg'')]"

definition cat_bare :: jsobj where
  "cat_bare = [(''Key'', JStr ''cat.jpg''), (''ETag'', JStr ''abc123''), (''Size'', JNum 2048)]"

definition catUrl :: string where
  "catUrl = ''http://s3.amazonaws.com/my-bucket/cat.jpg''"

definition catNode :: jsobj where
  "catNode =
     [(''Key'', JStr ''cat.jpg''), (''ETag'', JStr ''abc123''), (''Size'', JNum 2048),
      (''absolutePath'', JStr ''/cache/cat.jpg''), (''id'', JStr ''id-abc123''),
      (''parent'', JStr ''file-1''),
      (''internal'',
       JObj [(''content'', JStr catUrl), (''contentDigest'', JStr ''abc123''),
             (''mediaType'', JStr ''image/jpeg''), (''type'', JStr ''S3ImageAsset'')])]"

definition refused :: jsobj where
  "refused = [(''Key'', JStr ''refused.jpg''), (''ETag'', JStr (quoted ''f0''))]"

definition refusedUrl :: string where
  "refusedUrl = ''http://s3.amazonaws.com/my-bucket/refused.jpg''"

definition refusedNode :: jsobj where
  "refusedNode =
     [(''Key'', JStr ''refused.jpg''), (''ETag'', JStr ''f0''),
      (''absolutePath'', JStr ''/cache/cat.jpg''), (''id'', JStr ''id-f0''),
      (''parent'', JStr ''file-1''),
      (''internal'',
       JObj [(''content'', JStr refusedUrl), (''contentDigest'', JStr ''f0''),
             (''mediaType'', JStr ''image/jpeg''), (''type'', JStr ''S3ImageAsset'')])]"

section \<open>Reading the trace\<close>

text \<open>The \<^verbatim>\<open>id\<close> of every node handed to \<open>createNode\<close>, in call order.\<close>

fun nodeIds :: "event list \<Rightarrow> jsval list" where
  "nodeIds [] = []"
| "nodeIds (CreateNode node # evs) = getProp node ''id'' # nodeIds evs"
| "nodeIds (ev # evs) = nodeIds evs"

section \<open>Basic facts\<close>

text \<open>Replacing a character by nothing is filtering it out.\<close>

lemma replace_global_filter: "replace_global c [] s = filter (\<lambda>x. x \<noteq> c) s"
  by (induction s) simp_all

lemma getEntityNodeFields_string:
  assumes "getProp entity ''ETag'' = JStr s"
  shows "\<exists>f. getEntityNodeFields types entity fileNode = Inr f
             \<and> objectHash f = replace_global dquote [] s
             \<and> absolutePath f = lodash_get fileNode ''absolutePath''
             \<and> fileNodeId f = lodash_get fileNode ''id''
             \<and> Key f = (if getProp entity ''Key'' = JUndefined then JStr [] else getProp entity ''Key'')
             \<and> mediaType f = mime_lookup types (Key f)"
  using assms by (simp add: getEntityNodeFields_def Let_def)

lemma getEntityNodeFields_throws:
  assumes "\<forall>s. getProp entity ''ETag'' \<noteq> JStr s"
  shows "getEntityNodeFields types entity fileNode = Inl TypeError"
  using assms by (cases "getProp entity ''ETag''") (simp_all add: getEntityNodeFields_def Let_def)

lemma processEntity_resolves: "\<exists>v. fst (processEntity env opts e) = JResolved v"
  by (simp add: processEntity_def split: option.split prod.split sum.split)

lemma compact_resolved: "compact (map JResolved vs) = map JResolved vs"
  by (induction vs) (simp_all add: compact_def)

lemma promise_all_resolved: "promise_all (map JResolved vs) = Inr vs"
  by (induction vs) simp_all

lemma sourceNodes_run:
  assumes "listObjectsV2 env (s3Params opts) (bucketName opts) = Inr resp"
    and "Contents resp = Some es"
  shows "\<exists>vs. sourceNodes env opts = (Inr vs, concat (map (snd \<circ> processEntity env opts) es))
            \<and> map JResolved vs = map (fst \<circ> processEntity env opts) es"
proof -
  define val where
    "val = (\<lambda>e. case fst (processEntity env opts e) of JResolved v \<Rightarrow> v | _ \<Rightarrow> JUndefined)"
  have val: "fst (processEntity env opts e) = JResolved (val e)" for e
    using processEntity_resolves [of env opts e] by (auto simp: val_def)
  have ps: "map fst (map (processEntity env opts) es) = map JResolved (map val es)"
    by (simp add: val)
  have evs: "map snd (map (processEntity env opts) es) = map (snd \<circ> processEntity env opts) es"
    by simp
  have "sourceNodes env opts = (Inr (map val es), concat (map (snd \<circ> processEntity env opts) es))"
    using assms
    by (cases "es = []")
      (simp_all add: sourceNodes_def Let_def ps evs compact_resolved promise_all_resolved del: map_map)
  moreover have "map JResolved (map val es) = map (fst \<circ> processEntity env opts) es"
    by (simp add: val)
  ultimately show ?thesis by blast
qed

lemma run_slots:
  assumes "map JResolved vs = map (fst \<circ> processEntity env opts) es"
  shows "length vs = length es"
    and "i < length es \<Longrightarrow> fst (processEntity env opts (es ! i)) = JResolved (vs ! i)"
proof -
  show len: "length vs = length es"
    using assms by (metis length_map)
  assume "i < length es"
  then show "fst (processEntity env opts (es ! i)) = JResolved (vs ! i)"
    using assms len by (metis comp_apply nth_map)
qed

lemma concat_map_skip:
  assumes "i < length es" and "f (es ! i) = []"
  shows "concat (map f es) = concat (map f (take i es @ drop (Suc i) es))"
proof -
  have "es = take i es @ es ! i # drop (Suc i) es"
    using assms(1) by (rule id_take_nth_drop)
  then have "concat (map f es) = concat (map f (take i es @ es ! i # drop (Suc i) es))"
    by simp
  also have "\<dots> = concat (map f (take i es @ drop (Suc i) es))"
    using assms(2) by simp
  finally show ?thesis .
qed

lemmas sample_defs =
  sampleEnv_def sampleCreateNode_def sampleOpts_def sampleIsImage_def sampleTypes_def sampleUrl_def sampleFetch_def
  sampleFileNode_def extension_def quoted_def dquote_def readme_def cat_def broken_def
  empty_png_def untagged_def cat_bare_def catUrl_def catNode_def
  refused_def refusedUrl_def refusedNode_def

lemmas run_defs =
  processEntity_def urlArgs_def optDomain_def optProtocol_def fetchAndBuild_def
  createS3ImageAssetNode_def getEntityNodeFields_def assetNode_def getProp_def
  S3SourceGatsbyNodeType_def errorCreating_def TypeError_def compact_def s3Params_def

lemma createS3ImageAssetNode_string:
  assumes "truthy fileNode" and "getProp entity ''ETag'' = JStr s"
  shows "\<exists>f. getEntityNodeFields (mime_types env) entity fileNode = Inr f
           \<and> objectHash f = replace_global dquote [] s
           \<and> createS3ImageAssetNode env entity fileNode url =
               (createNode env (assetNode (createNodeId env) entity f url),
                [CreateNode (assetNode (createNodeId env) entity f url)])"
proof -
  from getEntityNodeFields_string [OF assms(2), of "mime_types env" fileNode] obtain f where
    f: "getEntityNodeFields (mime_types env) entity fileNode = Inr f"
    and h: "objectHash f = replace_global dquote [] s"
    by blast
  then show ?thesis using assms(1) by (simp add: createS3ImageAssetNode_def Let_def)
qed

lemma assetNode_id: "getProp (assetNode mkId entity f url) ''id'' = JStr (mkId (objectHash f))"
  by (simp add: assetNode_def getProp_def update_conv')

lemma assetNode_other:
  assumes "k \<notin> {''Key'', ''absolutePath'', ''parent'', ''ETag'', ''id'', ''internal''}"
  shows "map_of (assetNode mkId entity f url) k = map_of entity k"
  using assms by (simp add: assetNode_def update_conv')

lemma assetNode_names: "fst ` set entity \<subseteq> fst ` set (assetNode mkId entity f url)"
  by (auto simp: assetNode_def dom_update)

lemma fetchAndBuild_failure_calls:
  assumes "fetchAndBuild env entity url = (Inl err, evs)"
    and "CreateNode node \<in> set evs"
  shows "createNode env node = Inl err \<or> createNode env node = Inr (JRejected err)"
proof (cases "createRemoteFileNode env url")
  case (Inl e)
  then show ?thesis using assms by (auto simp: fetchAndBuild_def)
next
  case (Inr fileNode)
  show ?thesis
  proof (cases "getEntityNodeFields (mime_types env) entity fileNode")
    case (Inl e)
    then show ?thesis
      using assms Inr
      by (auto simp: fetchAndBuild_def createS3ImageAssetNode_def split: if_splits)
  next
    case f: (Inr f)
    let ?n = "assetNode (createNodeId env) entity f url"
    have t: "truthy fileNode"
      using assms Inr by (auto simp: fetchAndBuild_def split: if_splits)
    have c: "createS3ImageAssetNode env entity fileNode url = (createNode env ?n, [CreateNode ?n])"
      using t f by (simp add: createS3ImageAssetNode_def Let_def)
    show ?thesis
    proof (cases "createNode env ?n")
      case (Inl e)
      then show ?thesis
        using assms Inr t c by (auto simp: fetchAndBuild_def)
    next
      case p: (Inr p)
      then have "await p = Inl err" and "node = ?n"
        using assms Inr t c by (auto simp: fetchAndBuild_def)
      moreover from \<open>await p = Inl err\<close> have "p = JRejected err"
        by (cases p) simp_all
      ultimately show ?thesis using p by simp
    qed
  qed
qed

lemma sourceNodes_one_slot_per_object:
  assumes "listObjectsV2 env (s3Params opts) (bucketName opts) = Inr resp"
    and "Contents resp = Some es"
  shows "\<exists>vs. fst (sourceNodes env opts) = Inr vs \<and> length vs = length es"
proof -
  from sourceNodes_run [OF assms] obtain vs where
    "sourceNodes env opts = (Inr vs, concat (map (snd \<circ> processEntity env opts) es))"
    and "map JResolved vs = map (fst \<circ> processEntity env opts) es"
    by blast
  then show ?thesis using run_slots(1) by fastforce
qed

section \<open>The result sequence\<close>

text \<open>
  C1. The claim: for a non-empty listing, the sequence \<open>sourceNodes\<close> resolves to follows
  the listing order and has no slot for an object that was skipped or that failed.
  The order is the listing order, but \<^verbatim>\<open>_.compact\<close> is applied to the array of promises,
  before \<^verbatim>\<open>Promise.all\<close>, and a promise is always truthy: nothing is removed, and every
  skipped or failed object leaves \<^verbatim>\<open>undefined\<close> in its slot. On the listing
  \<^verbatim>\<open>readme.txt, cat.jpg, broken.png\<close> (a text file, an image, an image whose download fails)
  the run resolves to three slots, of which only the second holds a node.
\<close>

theorem sourceNodes_keeps_skipped_slots:
  "sourceNodes (sampleEnv (Some [readme, cat, broken])) sampleOpts =
     (Inr [JUndefined, JObj catNode, JUndefined],
      [Fetch catUrl, CreateNode catNode,
       Fetch ''http://s3.amazonaws.com/my-bucket/broken.png'',
       DanglingRejection ''Error creating S3ImageAsset node: ECONNRESET''])"
  by (simp add: sourceNodes_def sample_defs run_defs Let_def)

text \<open>
  C2. When the fetch-and-build step of one listed object throws (the fetch helper
  fails, the node fields cannot be built, or \<open>createNode\<close> throws or returns a rejected
  promise), the error is caught for that object: its promise resolves to
  \<^verbatim>\<open>undefined\<close> and a rejected promise carrying the message is left unawaited. Any
  \<open>createNode\<close> call made for the object is the one that failed. The run still resolves,
  with one slot per listed object, the failed object's slot \<^verbatim>\<open>undefined\<close>, every slot
  the value that object's own processing resolves to, and the calls of the run those of
  the objects taken one by one.
\<close>

theorem thrown_error_swallowed:
  assumes "listObjectsV2 env (s3Params opts) (bucketName opts) = Inr resp"
    and "Contents resp = Some es"
    and "i < length es"
    and "isImage env (es ! i)"
    and "constructS3UrlForAsset env (urlArgs opts (es ! i)) = Some url"
    and "url \<noteq> []"
    and "fetchAndBuild env (es ! i) url = (Inl err, evs)"
  shows "processEntity env opts (es ! i)
           = (JResolved JUndefined, evs @ [DanglingRejection (errorCreating err)])
       \<and> (\<forall>node. CreateNode node \<in> set evs \<longrightarrow>
             createNode env node = Inl err \<or> createNode env node = Inr (JRejected err))
       \<and> (\<exists>vs. sourceNodes env opts = (Inr vs, concat (map (snd \<circ> processEntity env opts) es))
                \<and> length vs = length es
                \<and> vs ! i = JUndefined
                \<and> (\<forall>j<length es. fst (processEntity env opts (es ! j)) = JResolved (vs ! j)))"
proof -
  have one: "processEntity env opts (es ! i)
      = (JResolved JUndefined, evs @ [DanglingRejection (errorCreating err)])"
    using assms(4-7) by (simp add: processEntity_def)
  have calls: "\<forall>node. CreateNode node \<in> set evs \<longrightarrow>
      createNode env node = Inl err \<or> createNode env node = Inr (JRejected err)"
    using fetchAndBuild_failure_calls [OF assms(7)] by blast
  from sourceNodes_run [OF assms(1,2)] obtain vs where
    run: "sourceNodes env opts = (Inr vs, concat (map (snd \<circ> processEntity env opts) es))"
    and vs: "map JResolved vs = map (fst \<circ> processEntity env opts) es"
    by blast
  have len: "length vs = length es"
    using vs by (rule run_slots(1))
  have slots: "\<forall>j<length es. fst (processEntity env opts (es ! j)) = JResolved (vs ! j)"
    using run_slots(2) [OF vs] by blast
  have "JResolved (vs ! i) = JResolved JUndefined"
    using run_slots(2) [OF vs assms(3)] one by simp
  then have "vs ! i = JUndefined" by simp
  with one calls run len slots show ?thesis by blast
qed

theorem thrown_error_swallowed_witness:
  "fetchAndBuild (sampleEnv (Some [cat, refused])) ([cat, refused] ! 1) refusedUrl
     = (Inl ''refused by host'', [Fetch refusedUrl, CreateNode refusedNode])
   \<and> processEntity (sampleEnv (Some [cat, refused])) sampleOpts refused
     = (JResolved JUndefined,
        [Fetch refusedUrl, CreateNode refusedNode,
         DanglingRejection ''Error creating S3ImageAsset node: refused by host''])
   \<and> createNode (sampleEnv (Some [cat, refused])) refusedNode = Inl ''refused by host''
   \<and> (\<exists>vs. fst (sourceNodes (sampleEnv (Some [cat, refused])) sampleOpts) = Inr vs
          \<and> length vs = 2 \<and> vs ! 1 = JUndefined
          \<and> fst (processEntity (sampleEnv (Some [cat, refused])) sampleOpts cat)
              = JResolved (vs ! 0))"
proof -
  let ?env = "sampleEnv (Some [cat, refused])"
  have l: "listObjectsV2 ?env (s3Params sampleOpts) (bucketName sampleOpts)
      = Inr \<lparr> Contents = Some [cat, refused] \<rparr>"
    by (simp add: sampleEnv_def)
  have c: "Contents \<lparr> Contents = Some [cat, refused] \<rparr> = Some [cat, refused]"
    by simp
  have i: "(1::nat) < length [cat, refused]"
    by simp
  have img: "isImage ?env ([cat, refused] ! 1)"
    by (simp add: sample_defs getProp_def)
  have u: "constructS3UrlForAsset ?env (urlArgs sampleOpts ([cat, refused] ! 1)) = Some refusedUrl"
    by (simp add: sample_defs run_defs)
  have ne: "refusedUrl \<noteq> []"
    by (simp add: refusedUrl_def)
  have f: "fetchAndBuild ?env ([cat, refused] ! 1) refusedUrl
      = (Inl ''refused by host'', [Fetch refusedUrl, CreateNode refusedNode])"
    by (simp add: sample_defs run_defs Let_def)
  have r: "createNode ?env refusedNode = Inl ''refused by host''"
    by (simp add: sample_defs getProp_def)
  from thrown_error_swallowed [OF l c i img u ne f]
  show ?thesis using f r by (auto simp: errorCreating_def)
qed

section \<open>Node fields\<close>

text \<open>
  C3. When the entity's \<^verbatim>\<open>ETag\<close> is a string, \<open>getEntityNodeFields\<close> returns fields whose
  \<open>objectHash\<close> contains no double quote and is the \<^verbatim>\<open>ETag\<close> with exactly its double
  quotes removed: the other characters are kept, in order. The node built from these
  fields carries it as \<^verbatim>\<open>ETag\<close> and as \<^verbatim>\<open>internal.contentDigest\<close>.
\<close>

theorem objectHash_unquoted:
  assumes "getProp entity ''ETag'' = JStr s"
  shows "\<exists>f. getEntityNodeFields types entity fileNode = Inr f
           \<and> dquote \<notin> set (objectHash f)
           \<and> objectHash f = filter (\<lambda>c. c \<noteq> dquote) s
           \<and> subseq (objectHash f) s
           \<and> getProp (assetNode mkId entity f url) ''ETag'' = JStr (objectHash f)
           \<and> lodash_get (getProp (assetNode mkId entity f url) ''internal'') ''contentDigest''
               = JStr (objectHash f)"
proof -
  from getEntityNodeFields_string [OF assms, of types fileNode] obtain f where
    f: "getEntityNodeFields types entity fileNode = Inr f"
    and h: "objectHash f = replace_global dquote [] s"
    by blast
  have flt: "objectHash f = filter (\<lambda>c. c \<noteq> dquote) s"
    using h by (simp add: replace_global_filter)
  have "dquote \<notin> set (objectHash f)"
    by (simp add: flt)
  moreover have "subseq (objectHash f) s"
    by (simp add: flt)
  moreover have "getProp (assetNode mkId entity f url) ''ETag'' = JStr (objectHash f)"
    by (simp add: assetNode_def getProp_def update_conv')
  moreover have "lodash_get (getProp (assetNode mkId entity f url) ''internal'') ''contentDigest''
      = JStr (objectHash f)"
    by (simp add: assetNode_def getProp_def update_conv')
  ultimately show ?thesis using f flt by blast
qed

theorem objectHash_unquoted_witness:
  "getProp cat ''ETag'' = JStr (quoted ''abc123'')
   \<and> (\<exists>f. getEntityNodeFields sampleTypes cat sampleFileNode = Inr f
          \<and> dquote \<notin> set (objectHash f) \<and> objectHash f = ''abc123'')"
proof -
  have h: "getProp cat ''ETag'' = JStr (quoted ''abc123'')"
    by (simp add: getProp_def cat_def)
  from objectHash_unquoted [OF h, of sampleTypes sampleFileNode id catUrl]
  show ?thesis using h by (auto simp: quoted_def dquote_def)
qed

text \<open>
  C4, as stated: an object whose \<^verbatim>\<open>ETag\<close> changes gets a different \<^verbatim>\<open>id\<close>, for an
  injective \<open>createNodeId\<close>. This fails for two \<^verbatim>\<open>ETag\<close>s that differ in their double
  quotes only: the quoted and the bare \<^verbatim>\<open>abc123\<close> are different strings and give the
  same \<^verbatim>\<open>id\<close>.
\<close>

theorem node_id_requoted_etag_counterexample:
  "inj (createNodeId (sampleEnv None))
   \<and> getProp cat ''ETag'' \<noteq> getProp cat_bare ''ETag''
   \<and> nodeIds (snd (createS3ImageAssetNode (sampleEnv None) cat sampleFileNode catUrl))
       = [JStr ''id-abc123'']
   \<and> nodeIds (snd (createS3ImageAssetNode (sampleEnv None) cat_bare sampleFileNode catUrl))
       = [JStr ''id-abc123'']"
proof -
  have "inj (createNodeId (sampleEnv None))"
    by (simp add: sampleEnv_def inj_def)
  moreover have "getProp cat ''ETag'' \<noteq> getProp cat_bare ''ETag''"
    by (simp add: getProp_def cat_def cat_bare_def quoted_def)
  moreover have
    "nodeIds (snd (createS3ImageAssetNode (sampleEnv None) cat sampleFileNode catUrl))
       = [JStr ''id-abc123'']"
    by (simp add: sample_defs run_defs Let_def)
  moreover have
    "nodeIds (snd (createS3ImageAssetNode (sampleEnv None) cat_bare sampleFileNode catUrl))
       = [JStr ''id-abc123'']"
    by (simp add: sample_defs run_defs Let_def)
  ultimately show ?thesis by blast
qed

text \<open>
  C4, amended. The \<^verbatim>\<open>id\<close> of the node handed to \<open>createNode\<close> is \<open>createNodeId\<close> applied
  to the unquoted \<^verbatim>\<open>ETag\<close>, whatever the file node, the URL and the other fields are. So
  two objects with the same \<^verbatim>\<open>ETag\<close> get the same \<^verbatim>\<open>id\<close>, and for an injective
  \<open>createNodeId\<close> two objects get the same \<^verbatim>\<open>id\<close> exactly when their unquoted
  \<^verbatim>\<open>ETag\<close>s are equal.
\<close>

theorem node_id_from_unquoted_etag:
  assumes "truthy fileNode1" and "truthy fileNode2"
    and "getProp entity1 ''ETag'' = JStr s1" and "getProp entity2 ''ETag'' = JStr s2"
  shows "nodeIds (snd (createS3ImageAssetNode env entity1 fileNode1 url1))
           = [JStr (createNodeId env (filter (\<lambda>c. c \<noteq> dquote) s1))]
       \<and> nodeIds (snd (createS3ImageAssetNode env entity2 fileNode2 url2))
           = [JStr (createNodeId env (filter (\<lambda>c. c \<noteq> dquote) s2))]
       \<and> (inj (createNodeId env) \<longrightarrow>
            (nodeIds (snd (createS3ImageAssetNode env entity1 fileNode1 url1))
               = nodeIds (snd (createS3ImageAssetNode env entity2 fileNode2 url2))
             \<longleftrightarrow> filter (\<lambda>c. c \<noteq> dquote) s1 = filter (\<lambda>c. c \<noteq> dquote) s2))"
proof -
  have ids: "nodeIds (snd (createS3ImageAssetNode env entity fileNode url))
      = [JStr (createNodeId env (filter (\<lambda>c. c \<noteq> dquote) s))]"
    if "truthy fileNode" and "getProp entity ''ETag'' = JStr s" for entity fileNode url s
  proof -
    from createS3ImageAssetNode_string [OF that, of env url] obtain f where
      "objectHash f = replace_global dquote [] s"
      and "createS3ImageAssetNode env entity fileNode url =
               (createNode env (assetNode (createNodeId env) entity f url),
                [CreateNode (assetNode (createNodeId env) entity f url)])"
      by blast
    then show ?thesis by (simp add: assetNode_id replace_global_filter)
  qed
  have one: "nodeIds (snd (createS3ImageAssetNode env entity1 fileNode1 url1))
      = [JStr (createNodeId env (filter (\<lambda>c. c \<noteq> dquote) s1))]"
    using assms(1,3) by (rule ids)
  have two: "nodeIds (snd (createS3ImageAssetNode env entity2 fileNode2 url2))
      = [JStr (createNodeId env (filter (\<lambda>c. c \<noteq> dquote) s2))]"
    using assms(2,4) by (rule ids)
  show ?thesis
    by (simp add: one two inj_eq)
qed

theorem node_id_from_unquoted_etag_witness:
  "truthy sampleFileNode \<and> getProp cat ''ETag'' = JStr (quoted ''abc123'')
   \<and> getProp broken ''ETag'' = JStr (quoted ''b1'')
   \<and> inj (createNodeId (sampleEnv None))
   \<and> nodeIds (snd (createS3ImageAssetNode (sampleEnv None) cat sampleFileNode catUrl))
       = [JStr ''id-abc123'']
   \<and> nodeIds (snd (createS3ImageAssetNode (sampleEnv None) broken sampleFileNode catUrl))
       = [JStr ''id-b1'']
   \<and> nodeIds (snd (createS3ImageAssetNode (sampleEnv None) cat sampleFileNode catUrl))
       \<noteq> nodeIds (snd (createS3ImageAssetNode (sampleEnv None) broken sampleFileNode catUrl))"
proof -
  have t: "truthy sampleFileNode"
    by (simp add: sampleFileNode_def)
  have e1: "getProp cat ''ETag'' = JStr (quoted ''abc123'')"
    by (simp add: getProp_def cat_def)
  have e2: "getProp broken ''ETag'' = JStr (quoted ''b1'')"
    by (simp add: getProp_def broken_def)
  have i: "inj (createNodeId (sampleEnv None))"
    by (simp add: sampleEnv_def inj_def)
  have c: "createNodeId (sampleEnv None) = (\<lambda>seed. ''id-'' @ seed)"
    by (simp add: sampleEnv_def)
  from node_id_from_unquoted_etag [OF t t e1 e2, of "sampleEnv None" catUrl catUrl]
  show ?thesis using t e1 e2 i by (simp add: c quoted_def dquote_def)
qed

text \<open>
  C5. Every node that \<open>createS3ImageAssetNode\<close> hands to \<open>createNode\<close> (there is at most
  one, and then the entity's \<^verbatim>\<open>ETag\<close> is a string) has every property name of the entity,
  with the entity's value for every name other than the six set after the spread;
  \<^verbatim>\<open>Key\<close> is the entity's key, or the empty string when it is undefined;
  \<^verbatim>\<open>absolutePath\<close> and \<^verbatim>\<open>parent\<close> are the file node's \<^verbatim>\<open>absolutePath\<close> and \<^verbatim>\<open>id\<close>;
  \<^verbatim>\<open>ETag\<close> is the unquoted hash; \<^verbatim>\<open>id\<close> is \<open>createNodeId\<close> of the hash; and
  \<^verbatim>\<open>internal\<close> is exactly the block of the URL, the hash, the type looked up from the
  key, and \<^verbatim>\<open>S3ImageAsset\<close>.
\<close>

theorem created_node_shape:
  assumes "CreateNode node \<in> set (snd (createS3ImageAssetNode env entity fileNode url))"
  shows "\<exists>s. getProp entity ''ETag'' = JStr s
     \<and> snd (createS3ImageAssetNode env entity fileNode url) = [CreateNode node]
     \<and> fst ` set entity \<subseteq> fst ` set node
     \<and> (\<forall>k. k \<notin> {''Key'', ''absolutePath'', ''parent'', ''ETag'', ''id'', ''internal''}
            \<longrightarrow> map_of node k = map_of entity k)
     \<and> getProp node ''Key''
         = (if getProp entity ''Key'' = JUndefined then JStr [] else getProp entity ''Key'')
     \<and> getProp node ''absolutePath'' = lodash_get fileNode ''absolutePath''
     \<and> getProp node ''parent'' = lodash_get fileNode ''id''
     \<and> getProp node ''ETag'' = JStr (filter (\<lambda>c. c \<noteq> dquote) s)
     \<and> getProp node ''id'' = JStr (createNodeId env (filter (\<lambda>c. c \<noteq> dquote) s))
     \<and> getProp node ''internal''
         = JObj [(''content'', JStr url),
                 (''contentDigest'', JStr (filter (\<lambda>c. c \<noteq> dquote) s)),
                 (''mediaType'', mime_lookup (mime_types env) (getProp node ''Key'')),
                 (''type'', JStr ''S3ImageAsset'')]"
proof -
  have t: "truthy fileNode"
    using assms by (auto simp: createS3ImageAssetNode_def split: if_splits)
  have "\<exists>s. getProp entity ''ETag'' = JStr s"
  proof (rule ccontr)
    assume "\<not> (\<exists>s. getProp entity ''ETag'' = JStr s)"
    then have "getEntityNodeFields (mime_types env) entity fileNode = Inl TypeError"
      by (simp add: getEntityNodeFields_throws)
    then show False using assms by (simp add: createS3ImageAssetNode_def split: if_splits)
  qed
  then obtain s where s: "getProp entity ''ETag'' = JStr s" ..
  from getEntityNodeFields_string [OF s, of "mime_types env" fileNode] obtain f where
    f: "getEntityNodeFields (mime_types env) entity fileNode = Inr f"
    and h: "objectHash f = replace_global dquote [] s"
    and a: "absolutePath f = lodash_get fileNode ''absolutePath''"
    and p: "fileNodeId f = lodash_get fileNode ''id''"
    and k: "Key f = (if getProp entity ''Key'' = JUndefined then JStr [] else getProp entity ''Key'')"
    and m: "mediaType f = mime_lookup (mime_types env) (Key f)"
    by blast
  have run: "snd (createS3ImageAssetNode env entity fileNode url)
      = [CreateNode (assetNode (createNodeId env) entity f url)]"
    using t f by (simp add: createS3ImageAssetNode_def Let_def)
  then have node: "node = assetNode (createNodeId env) entity f url"
    using assms by simp
  have hf: "objectHash f = filter (\<lambda>c. c \<noteq> dquote) s"
    using h by (simp add: replace_global_filter)
  have nk: "getProp node ''Key'' = Key f"
    by (simp add: node assetNode_def getProp_def update_conv')
  have "snd (createS3ImageAssetNode env entity fileNode url) = [CreateNode node]"
    using run node by simp
  moreover have "fst ` set entity \<subseteq> fst ` set node"
    unfolding node by (rule assetNode_names)
  moreover have "\<forall>k. k \<notin> {''Key'', ''absolutePath'', ''parent'', ''ETag'', ''id'', ''internal''}
            \<longrightarrow> map_of node k = map_of entity k"
  proof (intro allI impI)
    fix k :: string
    assume "k \<notin> {''Key'', ''absolutePath'', ''parent'', ''ETag'', ''id'', ''internal''}"
    then show "map_of node k = map_of entity k"
      unfolding node by (rule assetNode_other)
  qed
  moreover have "getProp node ''Key''
      = (if getProp entity ''Key'' = JUndefined then JStr [] else getProp entity ''Key'')"
    using nk k by simp
  moreover have "getProp node ''absolutePath'' = lodash_get fileNode ''absolutePath''"
    using a by (simp add: node assetNode_def getProp_def update_conv')
  moreover have "getProp node ''parent'' = lodash_get fileNode ''id''"
    using p by (simp add: node assetNode_def getProp_def update_conv')
  moreover have "getProp node ''ETag'' = JStr (filter (\<lambda>c. c \<noteq> dquote) s)"
    using hf by (simp add: node assetNode_def getProp_def update_conv')
  moreover have "getProp node ''id'' = JStr (createNodeId env (filter (\<lambda>c. c \<noteq> dquote) s))"
    using hf by (simp add: node assetNode_id)
  moreover have "getProp node ''internal''
         = JObj [(''content'', JStr url),
                 (''contentDigest'', JStr (filter (\<lambda>c. c \<noteq> dquote) s)),
                 (''mediaType'', mime_lookup (mime_types env) (getProp node ''Key'')),
                 (''type'', JStr ''S3ImageAsset'')]"
    using hf m nk
    by (simp add: node assetNode_def getProp_def update_conv' S3SourceGatsbyNodeType_def)
  ultimately show ?thesis using s by blast
qed

theorem created_node_shape_witness:
  "CreateNode catNode \<in> set (snd (createS3ImageAssetNode (sampleEnv None) cat sampleFileNode catUrl))
   \<and> getProp catNode ''ETag'' = JStr ''abc123''
   \<and> getProp catNode ''id'' = JStr (createNodeId (sampleEnv None) ''abc123'')
   \<and> getProp catNode ''parent'' = lodash_get sampleFileNode ''id''
   \<and> map_of catNode ''Size'' = map_of cat ''Size''"
proof -
  have h: "CreateNode catNode
      \<in> set (snd (createS3ImageAssetNode (sampleEnv None) cat sampleFileNode catUrl))"
    by (simp add: sample_defs run_defs Let_def)
  have e: "getProp cat ''ETag'' = JStr (quoted ''abc123'')"
    by (simp add: getProp_def cat_def)
  from created_node_shape [OF h] e
  show ?thesis using h by (auto simp: quoted_def dquote_def)
qed

section \<open>Skips and failures\<close>

text \<open>
  C6. When the listing response has no \<^verbatim>\<open>Contents\<close>, or an empty one, \<open>sourceNodes\<close>
  resolves to the empty sequence and makes no call to the fetch helper or to
  \<open>createNode\<close>.
\<close>

theorem empty_listing_no_calls:
  assumes "listObjectsV2 env (s3Params opts) (bucketName opts) = Inr resp"
    and "Contents resp = None \<or> Contents resp = Some []"
  shows "sourceNodes env opts = (Inr [], [])"
  using assms by (auto simp: sourceNodes_def)

theorem empty_listing_no_calls_witness:
  "listObjectsV2 (sampleEnv None) (s3Params sampleOpts) (bucketName sampleOpts)
     = Inr \<lparr> Contents = None \<rparr>
   \<and> sourceNodes (sampleEnv None) sampleOpts = (Inr [], [])"
proof -
  have h: "listObjectsV2 (sampleEnv None) (s3Params sampleOpts) (bucketName sampleOpts)
     = Inr \<lparr> Contents = None \<rparr>"
    by (simp add: sampleEnv_def)
  have c: "Contents \<lparr> Contents = None \<rparr> = None \<or> Contents \<lparr> Contents = None \<rparr> = Some []"
    by simp
  from empty_listing_no_calls [OF h c] h show ?thesis by simp
qed

text \<open>
  C7. A listed object that the classifier rejects is skipped without an error: its
  processing resolves to \<^verbatim>\<open>undefined\<close> and makes no call, so the calls of the run are
  those of the other listed objects, and its slot in the result holds no node.
\<close>

theorem non_image_skipped:
  assumes "listObjectsV2 env (s3Params opts) (bucketName opts) = Inr resp"
    and "Contents resp = Some es"
    and "i < length es"
    and "\<not> isImage env (es ! i)"
  shows "processEntity env opts (es ! i) = (JResolved JUndefined, [])
       \<and> (\<exists>vs. sourceNodes env opts
                  = (Inr vs, concat (map (snd \<circ> processEntity env opts)
                                        (take i es @ drop (Suc i) es)))
                \<and> length vs = length es
                \<and> vs ! i = JUndefined)"
proof -
  have one: "processEntity env opts (es ! i) = (JResolved JUndefined, [])"
    using assms(4) by (simp add: processEntity_def)
  from sourceNodes_run [OF assms(1,2)] obtain vs where
    run: "sourceNodes env opts = (Inr vs, concat (map (snd \<circ> processEntity env opts) es))"
    and vs: "map JResolved vs = map (fst \<circ> processEntity env opts) es"
    by blast
  have len: "length vs = length es"
    using vs by (rule run_slots(1))
  have "JResolved (vs ! i) = JResolved JUndefined"
    using run_slots(2) [OF vs assms(3)] one by simp
  then have slot: "vs ! i = JUndefined" by simp
  have "(snd \<circ> processEntity env opts) (es ! i) = []"
    using one by simp
  with assms(3) have "concat (map (snd \<circ> processEntity env opts) es)
      = concat (map (snd \<circ> processEntity env opts) (take i es @ drop (Suc i) es))"
    by (rule concat_map_skip)
  with one run len slot show ?thesis by simp
qed

theorem non_image_skipped_witness:
  "\<not> isImage (sampleEnv (Some [readme, cat])) ([readme, cat] ! 0)
   \<and> processEntity (sampleEnv (Some [readme, cat])) sampleOpts readme = (JResolved JUndefined, [])
   \<and> snd (sourceNodes (sampleEnv (Some [readme, cat])) sampleOpts)
       = snd (processEntity (sampleEnv (Some [readme, cat])) sampleOpts cat)"
proof -
  let ?env = "sampleEnv (Some [readme, cat])"
  have l: "listObjectsV2 ?env (s3Params sampleOpts) (bucketName sampleOpts)
      = Inr \<lparr> Contents = Some [readme, cat] \<rparr>"
    by (simp add: sampleEnv_def)
  have c: "Contents \<lparr> Contents = Some [readme, cat] \<rparr> = Some [readme, cat]"
    by simp
  have i: "(0::nat) < length [readme, cat]"
    by simp
  have img: "\<not> isImage ?env ([readme, cat] ! 0)"
    by (simp add: sample_defs getProp_def)
  from non_image_skipped [OF l c i img]
  show ?thesis using img by auto
qed

text \<open>
  C8. For a listed image with a URL, when the fetch helper resolves to a falsy file
  node the object is skipped: the fetch is its only call, no node is built or created,
  its promise resolves to \<^verbatim>\<open>undefined\<close>, and the run resolves.
\<close>

theorem falsy_file_node_skipped:
  assumes "listObjectsV2 env (s3Params opts) (bucketName opts) = Inr resp"
    and "Contents resp = Some es"
    and "i < length es"
    and "isImage env (es ! i)"
    and "constructS3UrlForAsset env (urlArgs opts (es ! i)) = Some url"
    and "url \<noteq> []"
    and "createRemoteFileNode env url = Inr fileNode"
    and "\<not> truthy fileNode"
  shows "processEntity env opts (es ! i) = (JResolved JUndefined, [Fetch url])
       \<and> (\<exists>vs. fst (sourceNodes env opts) = Inr vs
                \<and> length vs = length es
                \<and> vs ! i = JUndefined)"
proof -
  have one: "processEntity env opts (es ! i) = (JResolved JUndefined, [Fetch url])"
    using assms(4-8) by (simp add: processEntity_def fetchAndBuild_def)
  from sourceNodes_run [OF assms(1,2)] obtain vs where
    run: "sourceNodes env opts = (Inr vs, concat (map (snd \<circ> processEntity env opts) es))"
    and vs: "map JResolved vs = map (fst \<circ> processEntity env opts) es"
    by blast
  have len: "length vs = length es"
    using vs by (rule run_slots(1))
  have "JResolved (vs ! i) = JResolved JUndefined"
    using run_slots(2) [OF vs assms(3)] one by simp
  then have "vs ! i = JUndefined" by simp
  with one run len show ?thesis by simp
qed

theorem falsy_file_node_skipped_witness:
  "createRemoteFileNode (sampleEnv (Some [empty_png])) ''http://s3.amazonaws.com/my-bucket/empty.png''
     = Inr JNull
   \<and> \<not> truthy JNull
   \<and> processEntity (sampleEnv (Some [empty_png])) sampleOpts empty_png
     = (JResolved JUndefined, [Fetch ''http://s3.amazonaws.com/my-bucket/empty.png''])
   \<and> (\<exists>vs. fst (sourceNodes (sampleEnv (Some [empty_png])) sampleOpts) = Inr vs)"
proof -
  let ?env = "sampleEnv (Some [empty_png])"
  let ?url = "''http://s3.amazonaws.com/my-bucket/empty.png''"
  have l: "listObjectsV2 ?env (s3Params sampleOpts) (bucketName sampleOpts)
      = Inr \<lparr> Contents = Some [empty_png] \<rparr>"
    by (simp add: sampleEnv_def)
  have c: "Contents \<lparr> Contents = Some [empty_png] \<rparr> = Some [empty_png]"
    by simp
  have i: "(0::nat) < length [empty_png]"
    by simp
  have img: "isImage ?env ([empty_png] ! 0)"
    by (simp add: sample_defs getProp_def)
  have u: "constructS3UrlForAsset ?env (urlArgs sampleOpts ([empty_png] ! 0)) = Some ?url"
    by (simp add: sample_defs run_defs)
  have ne: "?url \<noteq> []"
    by simp
  have f: "createRemoteFileNode ?env ?url = Inr JNull"
    by (simp add: sample_defs)
  have t: "\<not> truthy JNull"
    by simp
  from falsy_file_node_skipped [OF l c i img u ne f t]
  show ?thesis using f t by auto
qed

text \<open>
  C9. Called with a falsy file node, \<open>createS3ImageAssetNode\<close> returns a rejected promise
  with its fixed message and does not call \<open>createNode\<close>; a caller that awaits the result
  gets the rejection.
\<close>

theorem missing_file_node_rejects:
  assumes "\<not> truthy fileNode"
  shows "\<exists>p. createS3ImageAssetNode env entity fileNode url = (Inr p, [])
           \<and> p = JRejected fileNodeMissing \<and> await p = Inl fileNodeMissing"
  using assms by (simp add: createS3ImageAssetNode_def)

theorem missing_file_node_rejects_witness:
  "\<not> truthy JUndefined
   \<and> createS3ImageAssetNode (sampleEnv None) cat JUndefined catUrl
       = (Inr (JRejected fileNodeMissing), [])"
proof -
  have h: "\<not> truthy JUndefined" by simp
  from missing_file_node_rejects [OF h, of "sampleEnv None" cat catUrl] h
  show ?thesis by auto
qed

text \<open>
  C10. When the entity has no \<^verbatim>\<open>ETag\<close>, \<open>getEntityNodeFields\<close> throws a TypeError, and
  so does \<open>createS3ImageAssetNode\<close> given a file node, synchronously and before any call
  to \<open>createNode\<close>.
\<close>

theorem missing_etag_throws:
  assumes "getProp entity ''ETag'' = JUndefined" and "truthy fileNode"
  shows "getEntityNodeFields types entity fileNode = Inl TypeError
       \<and> createS3ImageAssetNode env entity fileNode url = (Inl TypeError, [])"
proof -
  have "\<forall>s. getProp entity ''ETag'' \<noteq> JStr s"
    using assms(1) by simp
  then have "getEntityNodeFields ts entity fileNode = Inl TypeError" for ts
    by (rule getEntityNodeFields_throws)
  then show ?thesis using assms(2) by (simp add: createS3ImageAssetNode_def)
qed

theorem missing_etag_throws_witness:
  "getProp untagged ''ETag'' = JUndefined \<and> truthy sampleFileNode
   \<and> getEntityNodeFields sampleTypes untagged sampleFileNode = Inl TypeError
   \<and> createS3ImageAssetNode (sampleEnv None) untagged sampleFileNode catUrl = (Inl TypeError, [])"
proof -
  have h: "getProp untagged ''ETag'' = JUndefined"
    by (simp add: getProp_def untagged_def)
  have t: "truthy sampleFileNode"
    by (simp add: sampleFileNode_def)
  from missing_etag_throws [OF h t, of sampleTypes "sampleEnv None" catUrl] h t
  show ?thesis by simp
qed

end
